theory Spec2Isabelle
  imports Main "HOL-Library.AList"
begin

section \<open>The nightly release script: data model\<close>

text \<open>
  A shallow embedding of \<^verbatim>\<open>scripts/prepare_nightly_release.py\<close>. The script is a
  straight-line sequence of file writes, prints and calls of the \<^verbatim>\<open>git\<close> executable.
  Every effect is explicit: a \<open>world\<close> holds the files of the project tree, the lines
  printed so far and the command lines of the subprocesses started so far; a step takes
  a world and returns an outcome (an exception or a value) with the world it leaves.

  What the script imports from outside the repository is a parameter of the model
  (record \<open>env\<close>): the version class of \<^verbatim>\<open>pep440_version_utils\<close>, the functions
  \<^verbatim>\<open>toml.loads\<close> and \<^verbatim>\<open>toml.dumps\<close>, the behaviour of the \<^verbatim>\<open>git\<close> executable,
  the directory of the script and which paths can be opened for writing.

  A \<open>string\<close> is a sequence of bytes: the output of a subprocess and the content of a
  file are bytes, and a text that the script prints or writes stands for its UTF-8
  encoding. Where the script decodes bytes and works on the characters (the name of the
  current branch), the Python \<^verbatim>\<open>str\<close> is the list of its code points.
\<close>

subsection \<open>Exceptions\<close>

text \<open>
  The exceptions the script raises, catches or lets through. \<open>SystemExit n\<close> is what
  \<^verbatim>\<open>sys.exit(n)\<close> raises; \<open>OSError\<close> stands for a failure to open a file for
  writing, which no handler of the script catches; \<open>UnicodeDecodeError\<close> is raised by
  decoding bytes that are not UTF-8.
\<close>

datatype exn =
    InvalidVersion
  | TypeError
  | FileNotFoundError
  | OSError
  | TomlDecodeError
  | KeyError string
  | CalledProcessError
  | UnicodeDecodeError
  | SystemExit nat

subsection \<open>Parsed TOML data\<close>

text \<open>
  The value \<^verbatim>\<open>toml.load\<close> returns: a dict of strings to values. A dict is an
  association list, since Python dicts keep the order of insertion. \<open>TOther\<close> holds the
  scalars the script never looks into (floats, dates), by their literal text.
\<close>

datatype toml =
    TStr string
  | TInt int
  | TBool bool
  | TOther string
  | TList "toml list"
  | TDict "(string \<times> toml) list"

text \<open>
  \<^verbatim>\<open>o[k]\<close> with a string key: a dict raises \<^verbatim>\<open>KeyError\<close> on a missing key; anything
  else (a string, a list, a number) raises \<^verbatim>\<open>TypeError\<close>.
\<close>

fun getitem :: "toml \<Rightarrow> string \<Rightarrow> exn + toml" where
  "getitem (TDict kvs) k = (case map_of kvs k of None \<Rightarrow> Inl (KeyError k) | Some v \<Rightarrow> Inr v)"
| "getitem _ k = Inl TypeError"

text \<open>
  \<^verbatim>\<open>o[k] = v\<close> with a string key: a dict replaces the value of an existing key where it
  stands and appends a new key at the end; anything else raises \<^verbatim>\<open>TypeError\<close>.
\<close>

fun setitem :: "toml \<Rightarrow> string \<Rightarrow> toml \<Rightarrow> exn + toml" where
  "setitem (TDict kvs) k v = Inr (TDict (AList.update k v kvs))"
| "setitem _ k v = Inl TypeError"

subsection \<open>The world and the environment\<close>

record world =
  files :: "string \<rightharpoonup> string"
  stdout :: "string list"
  procs :: "string list list"

text \<open>
  \<open>git env argv\<close> is the exit status and the standard output (bytes) of the
  subprocess \<open>argv\<close>. \<open>toml_loads\<close> and \<open>toml_dumps\<close> take and give the text in its UTF-8
  encoding, as the manifest file holds it.
  \<open>parse_version s = None\<close> means that \<^verbatim>\<open>Version(s)\<close> raises \<^verbatim>\<open>InvalidVersion\<close>;
  \<open>toml_loads s = None\<close> that \<^verbatim>\<open>toml.loads(s)\<close> raises \<^verbatim>\<open>TomlDecodeError\<close>.
\<close>

record 'v env =
  project_root :: string
  parse_version :: "string \<Rightarrow> 'v option"
  version_str :: "'v \<Rightarrow> string"
  toml_loads :: "string \<Rightarrow> (string \<times> toml) list option"
  toml_dumps :: "toml \<Rightarrow> string"
  git :: "string list \<Rightarrow> nat \<times> string"
  writable :: "string \<Rightarrow> bool"

record args =
  arg_next_version :: "string option"

definition VERSION_FILE_PATH :: string where
  "VERSION_FILE_PATH = ''rasa/version.py''"

definition PYPROJECT_FILE_PATH :: string where
  "PYPROJECT_FILE_PATH = ''pyproject.toml''"

text \<open>\<^verbatim>\<open>project_root() / path\<close> for a relative \<open>path\<close>, as pathlib renders it.\<close>

definition joinpath :: "string \<Rightarrow> string \<Rightarrow> string" where
  "joinpath root p =
     (if root = ''.'' then p else if root = ''/'' then root @ p else root @ ''/'' @ p)"

definition py_print :: "string \<Rightarrow> world \<Rightarrow> world" where
  "py_print s w = w\<lparr>stdout := stdout w @ [s]\<rparr>"

text \<open>
  \<^verbatim>\<open>check_output(argv)\<close> and \<^verbatim>\<open>check_call(argv)\<close>: the subprocess is started
  (and logged); a non-zero exit status raises \<^verbatim>\<open>CalledProcessError\<close>. The git
  executable is taken to be installed: a failure to start it is not part of the model.
\<close>

definition check_output :: "'v env \<Rightarrow> string list \<Rightarrow> world \<Rightarrow> (exn + string) \<times> world" where
  "check_output env argv w =
     (let w' = w\<lparr>procs := procs w @ [argv]\<rparr> in
      case git env argv of
        (rc, out) \<Rightarrow> if rc = 0 then (Inr out, w') else (Inl CalledProcessError, w'))"

definition check_call :: "'v env \<Rightarrow> string list \<Rightarrow> world \<Rightarrow> (exn + unit) \<times> world" where
  "check_call env argv w =
     (let w' = w\<lparr>procs := procs w @ [argv]\<rparr> in
      if fst (git env argv) = 0 then (Inr (), w') else (Inl CalledProcessError, w'))"

section \<open>The branch guard\<close>

subsection \<open>Bytes and text\<close>

text \<open>The \<^verbatim>\<open>str\<close> of an ASCII literal of the source, as code points.\<close>

definition ustr :: "string \<Rightarrow> nat list" where
  "ustr s = map of_char s"

text \<open>
  \<^verbatim>\<open>bytes.decode()\<close>: strict UTF-8. A byte that cannot start a character, a missing or
  wrong continuation byte, an overlong form, a surrogate and a code point above
  \<^verbatim>\<open>U+10FFFF\<close> all raise \<^verbatim>\<open>UnicodeDecodeError\<close> (the result \<open>None\<close>).
\<close>

definition continuation :: "nat \<Rightarrow> bool" where
  "continuation b = (0x80 \<le> b \<and> b \<le> 0xBF)"

fun utf8_decode :: "nat list \<Rightarrow> nat list option" where
  "utf8_decode [] = Some []"
| "utf8_decode (b0 # bs) =
     (if b0 < 0x80 then map_option ((#) b0) (utf8_decode bs)
      else if 0xC2 \<le> b0 \<and> b0 \<le> 0xDF then
        (case bs of
           b1 # r \<Rightarrow>
             if continuation b1
             then map_option ((#) ((b0 - 0xC0) * 0x40 + (b1 - 0x80))) (utf8_decode r)
             else None
         | _ \<Rightarrow> None)
      else if 0xE0 \<le> b0 \<and> b0 \<le> 0xEF then
        (case bs of
           b1 # b2 # r \<Rightarrow>
             if continuation b1 \<and> continuation b2 \<and>
                (b0 \<noteq> 0xE0 \<or> 0xA0 \<le> b1) \<and> (b0 \<noteq> 0xED \<or> b1 \<le> 0x9F)
             then map_option
                    ((#) ((b0 - 0xE0) * 0x1000 + (b1 - 0x80) * 0x40 + (b2 - 0x80)))
                    (utf8_decode r)
             else None
         | _ \<Rightarrow> None)
      else if 0xF0 \<le> b0 \<and> b0 \<le> 0xF4 then
        (case bs of
           b1 # b2 # b3 # r \<Rightarrow>
             if continuation b1 \<and> continuation b2 \<and> continuation b3 \<and>
                (b0 \<noteq> 0xF0 \<or> 0x90 \<le> b1) \<and> (b0 \<noteq> 0xF4 \<or> b1 \<le> 0x8F)
             then map_option
                    ((#) ((b0 - 0xF0) * 0x40000 + (b1 - 0x80) * 0x1000 + (b2 - 0x80) * 0x40 +
                          (b3 - 0x80)))
                    (utf8_decode r)
             else None
         | _ \<Rightarrow> None)
      else None)"

definition decode :: "string \<Rightarrow> nat list option" where
  "decode bs = utf8_decode (map of_char bs)"

text \<open>
  \<^verbatim>\<open>str.isspace\<close> on one character, and \<^verbatim>\<open>str.strip()\<close>: the white space of Python
  is that of Unicode, so it holds characters beyond ASCII, \<^verbatim>\<open>U+0085\<close> and
  \<^verbatim>\<open>U+00A0\<close> among them.
\<close>

definition isspace :: "nat \<Rightarrow> bool" where
  "isspace c =
     ((0x09 \<le> c \<and> c \<le> 0x0D) \<or> (0x1C \<le> c \<and> c \<le> 0x20) \<or> c = 0x85 \<or> c = 0xA0 \<or>
      c = 0x1680 \<or> (0x2000 \<le> c \<and> c \<le> 0x200A) \<or> c = 0x2028 \<or> c = 0x2029 \<or>
      c = 0x202F \<or> c = 0x205F \<or> c = 0x3000)"

definition strip :: "nat list \<Rightarrow> nat list" where
  "strip s = rev (dropWhile isspace (rev (dropWhile isspace s)))"

definition symbolic_ref_argv :: "string list" where
  "symbolic_ref_argv = [''git'', ''symbolic-ref'', ''--short'', ''HEAD'']"

text \<open>
  \<^verbatim>\<open>output.decode().strip()\<close> inside the \<^verbatim>\<open>try\<close>. Only \<^verbatim>\<open>CalledProcessError\<close> is
  caught (a detached head, for one); any other exception passes through, the
  \<^verbatim>\<open>UnicodeDecodeError\<close> of an output that is not UTF-8 too.
\<close>

definition git_current_branch :: "'v env \<Rightarrow> world \<Rightarrow> (exn + nat list) \<times> world" where
  "git_current_branch env w =
     (case check_output env symbolic_ref_argv w of
        (Inr output, w') \<Rightarrow>
          (case decode output of
             None \<Rightarrow> (Inl UnicodeDecodeError, w')
           | Some text \<Rightarrow> (Inr (strip text), w'))
      | (Inl CalledProcessError, w') \<Rightarrow> (Inr (ustr ''main''), w')
      | (Inl e, w') \<Rightarrow> (Inl e, w'))"

definition git_current_branch_is_main :: "'v env \<Rightarrow> world \<Rightarrow> (exn + bool) \<times> world" where
  "git_current_branch_is_main env w =
     (case git_current_branch env w of
        (Inr current_branch, w') \<Rightarrow>
          (Inr (current_branch = ustr ''main'' \<or> current_branch = ustr ''ATO-114''), w')
      | (Inl e, w') \<Rightarrow> (Inl e, w'))"

section \<open>The file writers\<close>

text \<open>Sequencing: an exception of the first step ends the run in the world it left.\<close>

definition and_then ::
  "(exn + 'a) \<times> world \<Rightarrow> ('a \<Rightarrow> world \<Rightarrow> (exn + 'b) \<times> world) \<Rightarrow> (exn + 'b) \<times> world" where
  "and_then m f = (case m of (Inl e, w) \<Rightarrow> (Inl e, w) | (Inr x, w) \<Rightarrow> f x w)"

definition sys_exit :: "nat \<Rightarrow> world \<Rightarrow> (exn + 'a) \<times> world" where
  "sys_exit n w = (Inl (SystemExit n), w)"

definition version_file_text :: "string \<Rightarrow> string" where
  \<open>version_file_text v =
     ''# this file will automatically be changed,\<newline>'' @
     ''# do not add anything but the version number here!\<newline>'' @
     ''__version__ = "'' @ v @ ''"\<newline>''\<close>

text \<open>
  Opening with mode \<^verbatim>\<open>"w"\<close> replaces the whole file; where the path cannot be opened
  the exception leaves the file as it was.
\<close>

definition write_version_file :: "'v env \<Rightarrow> string \<Rightarrow> 'v \<Rightarrow> world \<Rightarrow> (exn + unit) \<times> world" where
  "write_version_file env path version w =
     (let version_file = joinpath (project_root env) path;
          w1 = py_print (''this is the version file path '' @ version_file) w
      in if writable env version_file
         then (Inr (),
               w1\<lparr>files := (files w1)(version_file \<mapsto> version_file_text (version_str env version))\<rparr>)
         else (Inl OSError, w1))"

text \<open>
  \<^verbatim>\<open>toml.load(path)\<close> for a \<^verbatim>\<open>pathlib\<close> path: opens the file with encoding UTF-8 (a
  missing file raises \<^verbatim>\<open>FileNotFoundError\<close>), reads it (bytes that are not UTF-8 raise
  \<^verbatim>\<open>UnicodeDecodeError\<close>), then parses the text.
\<close>

definition toml_load :: "'v env \<Rightarrow> string \<Rightarrow> world \<Rightarrow> exn + toml" where
  "toml_load env path w =
     (case files w path of
        None \<Rightarrow> Inl FileNotFoundError
      | Some s \<Rightarrow>
          (case decode s of
             None \<Rightarrow> Inl UnicodeDecodeError
           | Some text \<Rightarrow>
               (case toml_loads env s of
                  None \<Rightarrow> Inl TomlDecodeError
                | Some kvs \<Rightarrow> Inr (TDict kvs))))"

text \<open>
  \<^verbatim>\<open>data["tool"]["poetry"][k] = v\<close>. Python changes the inner dict in place; the model
  rebuilds the two dicts around it, each key staying where it stands.
\<close>

definition set_poetry_item :: "toml \<Rightarrow> string \<Rightarrow> toml \<Rightarrow> exn + toml" where
  "set_poetry_item data k v =
     (case getitem data ''tool'' of
        Inl e \<Rightarrow> Inl e
      | Inr tool \<Rightarrow>
          (case getitem tool ''poetry'' of
             Inl e \<Rightarrow> Inl e
           | Inr poetry \<Rightarrow>
               (case setitem poetry k v of
                  Inl e \<Rightarrow> Inl e
                | Inr poetry' \<Rightarrow>
                    (case setitem tool ''poetry'' poetry' of
                       Inl e \<Rightarrow> Inl e
                     | Inr tool' \<Rightarrow> setitem data ''tool'' tool'))))"

definition nightly_packages :: toml where
  "nightly_packages = TList [TDict [(''include'', TStr ''rasa'')]]"

text \<open>The three assignments of the \<^verbatim>\<open>try\<close> block, in the order of the source.\<close>

definition update_manifest :: "toml \<Rightarrow> string \<Rightarrow> exn + toml" where
  "update_manifest data v =
     (case set_poetry_item data ''name'' (TStr ''rasa-nightly'') of
        Inl e \<Rightarrow> Inl e
      | Inr d1 \<Rightarrow>
          (case set_poetry_item d1 ''version'' (TStr v) of
             Inl e \<Rightarrow> Inl e
           | Inr d2 \<Rightarrow> set_poetry_item d2 ''packages'' nightly_packages))"

text \<open>The body of the \<^verbatim>\<open>try\<close> block: load, update, write back.\<close>

definition pyproject_try :: "'v env \<Rightarrow> string \<Rightarrow> 'v \<Rightarrow> world \<Rightarrow> (exn + unit) \<times> world" where
  "pyproject_try env pyproject_file version w =
     (case toml_load env pyproject_file w of
        Inl e \<Rightarrow> (Inl e, w)
      | Inr data \<Rightarrow>
          (case update_manifest data (version_str env version) of
             Inl e \<Rightarrow> (Inl e, w)
           | Inr data' \<Rightarrow>
               if writable env pyproject_file
               then (Inr (), w\<lparr>files := (files w)(pyproject_file \<mapsto> toml_dumps env data')\<rparr>)
               else (Inl OSError, w)))"

definition write_version_to_pyproject ::
  "'v env \<Rightarrow> string \<Rightarrow> 'v \<Rightarrow> world \<Rightarrow> (exn + unit) \<times> world" where
  "write_version_to_pyproject env pyproject_file_path version w =
     (let pyproject_file = joinpath (project_root env) pyproject_file_path in
      case pyproject_try env pyproject_file version w of
        (Inl FileNotFoundError, w') \<Rightarrow>
          sys_exit 1 (py_print (''Unable to update '' @ pyproject_file @ '': file not found.'') w')
      | (Inl TypeError, w') \<Rightarrow>
          sys_exit 1 (py_print (''Unable to update '' @ pyproject_file @ '': file not found.'') w')
      | (Inl TomlDecodeError, w') \<Rightarrow>
          sys_exit 1 (py_print (''Unable to parse '' @ pyproject_file @ '': incorrect TOML file.'') w')
      | r \<Rightarrow> r)"

section \<open>Version resolution, tagging and the orchestrator\<close>

definition parse_next_version :: "'v env \<Rightarrow> string \<Rightarrow> exn + 'v" where
  "parse_next_version env version =
     (case parse_version env version of None \<Rightarrow> Inl InvalidVersion | Some v \<Rightarrow> Inr v)"

text \<open>
  Without \<^verbatim>\<open>--next_version\<close> argparse leaves \<^verbatim>\<open>None\<close>, on which the version class
  raises \<^verbatim>\<open>TypeError\<close>.
\<close>

definition next_version :: "'v env \<Rightarrow> args \<Rightarrow> exn + 'v" where
  "next_version env a =
     (case arg_next_version a of
        None \<Rightarrow> Inl TypeError
      | Some s \<Rightarrow> parse_next_version env s)"

definition print_done_message :: "'v env \<Rightarrow> 'v \<Rightarrow> world \<Rightarrow> world" where
  "print_done_message env version w =
     py_print []
       (py_print ([CHR 0x1B] @ ''[94m All done - changes for rasa nightly version '' @
                    version_str env version @ '' are ready! '' @ [CHR 0x1B] @ ''[0m'')
          (py_print [] w))"

definition tag_argv :: "string \<Rightarrow> string list" where
  "tag_argv tag = [''git'', ''tag'', tag, ''-m'', ''This is an internal development build'']"

definition push_argv :: "string \<Rightarrow> string list" where
  "push_argv tag = [''git'', ''push'', ''origin'', tag, ''--tags'']"

definition tag_commit :: "'v env \<Rightarrow> string \<Rightarrow> world \<Rightarrow> (exn + unit) \<times> world" where
  "tag_commit env tag w =
     check_call env (tag_argv tag)
       (py_print (''Applying tag '' @ [CHR 0x27] @ tag @ [CHR 0x27] @ '' to commit.'') w)"

definition push_tag :: "'v env \<Rightarrow> string \<Rightarrow> world \<Rightarrow> (exn + unit) \<times> world" where
  "push_tag env tag w =
     check_call env (push_argv tag)
       (py_print (''Pushing tag '' @ [CHR 0x27] @ tag @ [CHR 0x27] @ '' to origin.'') w)"

definition print_tag_release_done_message :: "'v env \<Rightarrow> 'v \<Rightarrow> world \<Rightarrow> world" where
  "print_tag_release_done_message env version w =
     py_print ([CHR 0x1B] @ ''[94m All done - tag for version '' @ version_str env version @
                '' was added and pushed to the remote '' @ [CHR 0x1B] @ ''[0m'')
       (py_print [] w)"

definition banner :: string where
  "banner =
     ''The release script will temporarily change the version number to a nightly version. Let's go!''"

definition branch_warning :: string where
  "branch_warning =
     ''\<newline>    You are currently not on the main branch.\<newline>'' @
     ''    Nightly release should only happen from main branch.\<newline>            ''"

definition main :: "'v env \<Rightarrow> args \<Rightarrow> world \<Rightarrow> (exn + unit) \<times> world" where
  "main env a w0 =
     (let w1 = py_print banner w0 in
      case next_version env a of
        Inl e \<Rightarrow> (Inl e, w1)
      | Inr version \<Rightarrow>
          and_then (write_version_file env VERSION_FILE_PATH version w1) (\<lambda>_ w2.
          and_then (write_version_to_pyproject env PYPROJECT_FILE_PATH version w2) (\<lambda>_ w3.
          and_then (git_current_branch env (print_done_message env version w3)) (\<lambda>branch w5.
          and_then (git_current_branch_is_main env w5) (\<lambda>is_main w6.
            if \<not> is_main then sys_exit 1 (py_print branch_warning w6)
            else
              (let tag = version_str env version in
               and_then (tag_commit env tag w6) (\<lambda>_ w7.
               and_then (push_tag env tag w7) (\<lambda>_ w8.
                 (Inr (), print_tag_release_done_message env version w8)))))))))"


section \<open>Instances of the libraries, for evaluation\<close>

text \<open>
  The theorems below hold for every environment. To run the script on a concrete
  manifest, the environment is instantiated with a reader and a writer for a fragment of
  TOML (comment lines, blank lines, \<^verbatim>\<open>[table]\<close> and \<^verbatim>\<open>[[array-of-tables]]\<close> headers,
  bare keys with basic-string values) and with a reader for version strings of the form
  \<^verbatim>\<open>N(.N)*[.devN]\<close> in canonical spelling, whose string form is the string itself.
  Text outside the fragment is rejected by the readers.
\<close>

subsection \<open>Reading the TOML fragment\<close>

text \<open>\<^verbatim>\<open>s.split(c)\<close>.\<close>

fun split_on :: "char \<Rightarrow> string \<Rightarrow> string list" where
  "split_on c [] = [[]]"
| "split_on c (x # xs) =
     (if x = c then [] # split_on c xs
      else (case split_on c xs of [] \<Rightarrow> [[x]] | l # ls \<Rightarrow> (x # l) # ls))"

definition bare_char :: "char \<Rightarrow> bool" where
  "bare_char c =
     (c \<in> set ''abcdefghijklmnopqrstuvwxyzABCDEFGHIJKLMNOPQRSTUVWXYZ0123456789_-'')"

definition bare_key :: "string \<Rightarrow> bool" where
  "bare_key s = (s \<noteq> [] \<and> list_all bare_char s)"

datatype toml_line = Blank | Table "string list" | ArrayTable "string list" | KeyVal string toml

definition read_path :: "string \<Rightarrow> string list option" where
  "read_path s = (let p = split_on CHR ''.'' s in if list_all bare_key p then Some p else None)"

definition read_basic_string :: "string \<Rightarrow> toml option" where
  "read_basic_string s =
     (if 2 \<le> length s \<and> hd s = CHR 0x22 \<and> last s = CHR 0x22 \<and>
         list_all (\<lambda>c. c \<noteq> CHR 0x22 \<and> c \<noteq> CHR 0x5C) (butlast (tl s))
      then Some (TStr (butlast (tl s))) else None)"

text \<open>Blanks around a line, a key or a value.\<close>

definition blank :: "char \<Rightarrow> bool" where
  "blank c = (c = CHR 0x09 \<or> c = CHR 0x20 \<or> c = CHR 0x0D)"

definition trim :: "string \<Rightarrow> string" where
  "trim s = rev (dropWhile blank (rev (dropWhile blank s)))"

text \<open>One line of the file; a comment counts as a blank line: the reader drops it.\<close>

definition read_line :: "string \<Rightarrow> toml_line option" where
  "read_line raw =
     (let l = trim raw in
      if l = [] \<or> hd l = CHR ''#'' then Some Blank
      else if take 2 l = ''[['' \<and> 4 \<le> length l \<and> drop (length l - 2) l = '']]''
        then map_option ArrayTable (read_path (take (length l - 4) (drop 2 l)))
      else if hd l = CHR ''['' \<and> last l = CHR '']''
        then map_option Table (read_path (butlast (tl l)))
      else (case dropWhile (\<lambda>c. c \<noteq> CHR ''='') l of
              [] \<Rightarrow> None
            | _ # v \<Rightarrow>
                (let k = trim (takeWhile (\<lambda>c. c \<noteq> CHR ''='') l) in
                 if bare_key k then map_option (KeyVal k) (read_basic_string (trim v))
                 else None)))"

text \<open>
  Applies \<open>f\<close> to the table at a dotted path, creating the tables on the way that do not
  exist yet; below an array of tables the path goes on in its last element.
\<close>

fun modify_at ::
  "string list \<Rightarrow> ((string \<times> toml) list \<Rightarrow> (string \<times> toml) list option) \<Rightarrow>
   (string \<times> toml) list \<Rightarrow> (string \<times> toml) list option" where
  "modify_at [] f kvs = f kvs"
| "modify_at (k # ks) f kvs =
     (case map_of kvs k of
        None \<Rightarrow> map_option (\<lambda>sub. kvs @ [(k, TDict sub)]) (modify_at ks f [])
      | Some (TDict sub) \<Rightarrow>
          map_option (\<lambda>sub'. AList.update k (TDict sub') kvs) (modify_at ks f sub)
      | Some (TList xs) \<Rightarrow>
          (case rev xs of
             TDict sub # earlier \<Rightarrow>
               map_option (\<lambda>sub'. AList.update k (TList (rev earlier @ [TDict sub'])) kvs)
                 (modify_at ks f sub)
           | _ \<Rightarrow> None)
      | Some _ \<Rightarrow> None)"

definition add_key ::
  "string \<Rightarrow> toml \<Rightarrow> (string \<times> toml) list \<Rightarrow> (string \<times> toml) list option" where
  "add_key k v t = (case map_of t k of None \<Rightarrow> Some (t @ [(k, v)]) | Some _ \<Rightarrow> None)"

definition add_array_table ::
  "string \<Rightarrow> (string \<times> toml) list \<Rightarrow> (string \<times> toml) list option" where
  "add_array_table k t =
     (case map_of t k of
        None \<Rightarrow> Some (t @ [(k, TList [TDict []])])
      | Some (TList xs) \<Rightarrow> Some (AList.update k (TList (xs @ [TDict []])) t)
      | Some _ \<Rightarrow> None)"

fun read_lines ::
  "toml_line option list \<Rightarrow> string list \<Rightarrow> (string \<times> toml) list \<Rightarrow>
   (string \<times> toml) list option" where
  "read_lines [] cur root = Some root"
| "read_lines (None # ls) cur root = None"
| "read_lines (Some Blank # ls) cur root = read_lines ls cur root"
| "read_lines (Some (Table p) # ls) cur root =
     (case modify_at (butlast p) (add_key (last p) (TDict [])) root of
        None \<Rightarrow> None
      | Some root' \<Rightarrow> read_lines ls p root')"
| "read_lines (Some (ArrayTable p) # ls) cur root =
     (case modify_at (butlast p) (add_array_table (last p)) root of
        None \<Rightarrow> None
      | Some root' \<Rightarrow> read_lines ls p root')"
| "read_lines (Some (KeyVal k v) # ls) cur root =
     (case modify_at cur (add_key k v) root of
        None \<Rightarrow> None
      | Some root' \<Rightarrow> read_lines ls cur root')"

definition fragment_loads :: "string \<Rightarrow> (string \<times> toml) list option" where
  "fragment_loads s = read_lines (map read_line (split_on CHR 0x0A s)) [] []"

subsection \<open>Writing TOML\<close>

definition quote :: "string \<Rightarrow> string" where
  "quote s =
     [CHR 0x22] @
     concat (map (\<lambda>c. if c = CHR 0x22 \<or> c = CHR 0x5C then [CHR 0x5C, c] else [c]) s) @
     [CHR 0x22]"

definition key_text :: "string \<Rightarrow> string" where
  "key_text k = (if bare_key k then k else quote k)"

fun nat_text :: "nat \<Rightarrow> string" where
  "nat_text n =
     (if n < 10 then [''0123456789'' ! n]
      else nat_text (n div 10) @ [''0123456789'' ! (n mod 10)])"

definition int_text :: "int \<Rightarrow> string" where
  "int_text i = (if i < 0 then ''-'' @ nat_text (nat (- i)) else nat_text (nat i))"

fun dump_value :: "toml \<Rightarrow> string" where
  "dump_value (TStr s) = quote s"
| "dump_value (TInt i) = int_text i"
| "dump_value (TBool b) = (if b then ''true'' else ''false'')"
| "dump_value (TOther s) = s"
| "dump_value (TList xs) = ''['' @ concat (map (\<lambda>x. '' '' @ dump_value x @ '','') xs) @ '']''"
| "dump_value (TDict kvs) =
     ''{'' @
     concat (map (\<lambda>kv. '' '' @ key_text (fst kv) @ '' = '' @ dump_value (snd kv) @ '','') kvs) @
     '' }''"

fun is_table :: "toml \<Rightarrow> bool" where
  "is_table (TDict _) = True"
| "is_table _ = False"

fun array_of_tables :: "toml \<Rightarrow> bool" where
  "array_of_tables (TList xs) = (xs \<noteq> [] \<and> list_all is_table xs)"
| "array_of_tables _ = False"

text \<open>The \<^verbatim>\<open>key = value\<close> lines of a table: its entries that are not tables themselves.\<close>

definition key_lines :: "(string \<times> toml) list \<Rightarrow> string" where
  "key_lines kvs =
     concat (map (\<lambda>kv. key_text (fst kv) @ '' = '' @ dump_value (snd kv) @ [CHR 0x0A])
               (filter (\<lambda>kv. \<not> is_table (snd kv) \<and> \<not> array_of_tables (snd kv)) kvs))"

definition child :: "string \<Rightarrow> string \<Rightarrow> string" where
  "child name k = (if name = [] then key_text k else name @ ''.'' @ key_text k)"

definition blank_before :: "string \<Rightarrow> string" where
  "blank_before acc =
     (if acc \<noteq> [] \<and> drop (length acc - 2) acc \<noteq> [CHR 0x0A, CHR 0x0A]
      then acc @ [CHR 0x0A] else acc)"

text \<open>
  The header and the key lines of one table, appended to what is written so far. A table
  that holds nothing but tables gets no header of its own.
\<close>

definition open_table :: "bool \<Rightarrow> string \<Rightarrow> string \<Rightarrow> (string \<times> toml) list \<Rightarrow> string" where
  "open_table arr acc name kvs =
     (if arr then acc @ ''[['' @ name @ '']]'' @ [CHR 0x0A] @ key_lines kvs @ [CHR 0x0A]
      else if name = [] then acc @ key_lines kvs
      else if key_lines kvs \<noteq> [] \<or> \<not> list_ex (\<lambda>kv. is_table (snd kv)) kvs
        then blank_before acc @ ''['' @ name @ '']'' @ [CHR 0x0A] @ key_lines kvs
      else acc)"

fun write_table :: "bool \<Rightarrow> string \<Rightarrow> string \<Rightarrow> toml \<Rightarrow> string" where
  "write_table arr acc name (TDict kvs) =
     foldl (\<lambda>a kv.
              case snd kv of
                TDict sub \<Rightarrow> write_table False a (child name (fst kv)) (snd kv)
              | TList xs \<Rightarrow>
                  if array_of_tables (TList xs)
                  then foldl (\<lambda>a' x. write_table True a' (child name (fst kv)) x) a xs
                  else a
              | _ \<Rightarrow> a)
       (open_table arr acc name kvs) kvs"
| "write_table arr acc name _ = acc"

definition fragment_dumps :: "toml \<Rightarrow> string" where
  "fragment_dumps d = write_table False [] [] d"

subsection \<open>Canonical version strings\<close>

fun split_dev :: "string list \<Rightarrow> string list \<times> string option" where
  "split_dev [] = ([], None)"
| "split_dev [s] = (if take 3 s = ''dev'' then ([], Some (drop 3 s)) else ([s], None))"
| "split_dev (s # ss) = (case split_dev ss of (r, d) \<Rightarrow> (s # r, d))"

definition canonical_number :: "string \<Rightarrow> bool" where
  "canonical_number s =
     (s \<noteq> [] \<and> list_all (\<lambda>c. c \<in> set ''0123456789'') s \<and> (s = ''0'' \<or> hd s \<noteq> CHR ''0''))"

definition canonical_version :: "string \<Rightarrow> string option" where
  "canonical_version s =
     (case split_dev (split_on CHR ''.'' s) of
        (release, dev) \<Rightarrow>
          if release \<noteq> [] \<and> list_all canonical_number release \<and>
             (case dev of None \<Rightarrow> True | Some n \<Rightarrow> canonical_number n)
          then Some s else None)"

subsection \<open>A project tree and three states of the repository\<close>

text \<open>
  \<open>git_on b\<close>: the working tree is on branch \<open>b\<close> and every git command succeeds.
  \<open>git_detached\<close>: the head is detached, so \<^verbatim>\<open>git symbolic-ref\<close> fails with status 128.
\<close>

definition git_on :: "string \<Rightarrow> string list \<Rightarrow> nat \<times> string" where
  "git_on b argv = (if argv = symbolic_ref_argv then (0, b @ [CHR 0x0A]) else (0, []))"

definition git_detached :: "string list \<Rightarrow> nat \<times> string" where
  "git_detached argv = (if argv = symbolic_ref_argv then (128, []) else (0, []))"

definition sample_env :: "(string list \<Rightarrow> nat \<times> string) \<Rightarrow> string env" where
  "sample_env g =
     \<lparr>project_root = ''/srv/rasa'',
      parse_version = canonical_version,
      version_str = (\<lambda>v. v),
      toml_loads = fragment_loads,
      toml_dumps = fragment_dumps,
      git = g,
      writable = (\<lambda>p. True)\<rparr>"

definition sample_manifest :: string where
  \<open>sample_manifest =
     ''# nightly builds are cut from this manifest\<newline>'' @
     ''title = "Rasa"\<newline>'' @
     ''\<newline>'' @
     ''[tool.poetry]\<newline>'' @
     ''name = "rasa"\<newline>'' @
     ''version = "2.4.0"\<newline>'' @
     ''description = "machine learning framework"\<newline>''\<close>

definition sample_world :: world where
  \<open>sample_world =
     \<lparr>files = [''/srv/rasa/pyproject.toml'' \<mapsto> sample_manifest,
               ''/srv/rasa/rasa/version.py'' \<mapsto> ''__version__ = "2.4.0"\<newline>''],
      stdout = [],
      procs = []\<rparr>\<close>


text \<open>The sample project tree with another manifest, or with none.\<close>

definition with_manifest :: "string option \<Rightarrow> world" where
  "with_manifest m = sample_world\<lparr>files := (files sample_world)(''/srv/rasa/pyproject.toml'' := m)\<rparr>"

subsection \<open>Line-wise comparison of two versions of a file\<close>

text \<open>
  A necessary condition for a rewrite that keeps everything but the three fields byte
  for byte: every line of the old text that does not assign \<^verbatim>\<open>name\<close>, \<^verbatim>\<open>version\<close> or
  \<^verbatim>\<open>packages\<close> is still a line of the new text.
\<close>

definition field_line :: "string \<Rightarrow> bool" where
  "field_line l =
     (trim (takeWhile (\<lambda>c. c \<noteq> CHR ''='') l) \<in> set [''name'', ''version'', ''packages''])"

definition other_lines_kept :: "string \<Rightarrow> string \<Rightarrow> bool" where
  "other_lines_kept old new =
     list_all (\<lambda>l. field_line l \<or> l \<in> set (split_on CHR 0x0A new)) (split_on CHR 0x0A old)"

text \<open>What the writer of the fragment makes of the sample manifest after the update.\<close>

definition sample_rewritten :: string where
  \<open>sample_rewritten =
     ''title = "Rasa"\<newline>'' @
     ''\<newline>'' @
     ''[tool.poetry]\<newline>'' @
     ''name = "rasa-nightly"\<newline>'' @
     ''version = "2.4.1.dev3"\<newline>'' @
     ''description = "machine learning framework"\<newline>'' @
     ''[[tool.poetry.packages]]\<newline>'' @
     ''include = "rasa"\<newline>'' @
     ''\<newline>''\<close>

section \<open>Properties of decoding and stripping\<close>








section \<open>Properties of the branch guard\<close>

lemma git_current_branch_eq:
  "git_current_branch env w =
     (if fst (git env symbolic_ref_argv) = 0
      then (case decode (snd (git env symbolic_ref_argv)) of
              None \<Rightarrow> Inl UnicodeDecodeError
            | Some text \<Rightarrow> Inr (strip text))
      else Inr (ustr ''main''),
      w\<lparr>procs := procs w @ [symbolic_ref_argv]\<rparr>)"
  by (simp add: git_current_branch_def check_output_def Let_def split: prod.splits option.splits)

lemma git_current_branch_is_main_eq:
  "git_current_branch_is_main env w =
     (case git_current_branch env w of
        (r, w') \<Rightarrow>
          (case r of
             Inr b \<Rightarrow> Inr (b = ustr ''main'' \<or> b = ustr ''ATO-114'')
           | Inl e \<Rightarrow> Inl e, w'))"
  by (simp add: git_current_branch_is_main_def split: prod.splits sum.splits)






text \<open>
  Claim C6. When \<^verbatim>\<open>git symbolic-ref --short HEAD\<close> exits with a non-zero status (a
  detached head), \<^verbatim>\<open>git_current_branch()\<close> raises nothing and returns \<^verbatim>\<open>"main"\<close>, and
  the branch guard accepts.
\<close>

theorem git_current_branch_detached_head:
  "fst (git env symbolic_ref_argv) \<noteq> 0 \<Longrightarrow>
   fst (git_current_branch env w) = Inr (ustr ''main'') \<and>
   fst (git_current_branch_is_main env w) = Inr True"
  by (simp add: git_current_branch_is_main_eq git_current_branch_eq)

theorem git_current_branch_detached_head_witness:
  "fst (git (sample_env git_detached) symbolic_ref_argv) = 128 \<and>
   fst (git_current_branch (sample_env git_detached) sample_world) = Inr (ustr ''main'') \<and>
   fst (git_current_branch_is_main (sample_env git_detached) sample_world) = Inr True"
proof -
  have h: "fst (git (sample_env git_detached) symbolic_ref_argv) \<noteq> 0"
    by (simp add: sample_env_def git_detached_def)
  show ?thesis
    using git_current_branch_detached_head [OF h, of sample_world]
    by (simp add: sample_env_def git_detached_def)
qed

section \<open>Properties of the manifest rewrite\<close>

lemma set_poetry_item_eq:
  assumes "map_of kvs ''tool'' = Some (TDict tool)"
    and "map_of tool ''poetry'' = Some (TDict poetry)"
  shows "set_poetry_item (TDict kvs) k x =
     Inr (TDict (AList.update ''tool''
            (TDict (AList.update ''poetry'' (TDict (AList.update k x poetry)) tool)) kvs))"
  using assms by (simp add: set_poetry_item_def)

lemma update_manifest_eq:
  assumes "map_of kvs ''tool'' = Some (TDict tool)"
    and "map_of tool ''poetry'' = Some (TDict poetry)"
  shows "update_manifest (TDict kvs) v =
     Inr (TDict (AList.update ''tool''
            (TDict (AList.update ''poetry''
               (TDict (AList.update ''packages'' nightly_packages
                  (AList.update ''version'' (TStr v)
                     (AList.update ''name'' (TStr ''rasa-nightly'') poetry)))) tool)) kvs))"
proof -
  let ?p1 = "AList.update ''name'' (TStr ''rasa-nightly'') poetry"
  let ?t1 = "AList.update ''poetry'' (TDict ?p1) tool"
  let ?d1 = "AList.update ''tool'' (TDict ?t1) kvs"
  let ?p2 = "AList.update ''version'' (TStr v) ?p1"
  let ?t2 = "AList.update ''poetry'' (TDict ?p2) ?t1"
  let ?d2 = "AList.update ''tool'' (TDict ?t2) ?d1"
  have 1: "set_poetry_item (TDict kvs) ''name'' (TStr ''rasa-nightly'') = Inr (TDict ?d1)"
    by (rule set_poetry_item_eq [OF assms])
  have d1: "map_of ?d1 ''tool'' = Some (TDict ?t1)" and t1: "map_of ?t1 ''poetry'' = Some (TDict ?p1)"
    by (simp_all add: update_conv')
  have 2: "set_poetry_item (TDict ?d1) ''version'' (TStr v) = Inr (TDict ?d2)"
    by (rule set_poetry_item_eq [OF d1 t1])
  have d2: "map_of ?d2 ''tool'' = Some (TDict ?t2)" and t2: "map_of ?t2 ''poetry'' = Some (TDict ?p2)"
    by (simp_all add: update_conv')
  have 3: "set_poetry_item (TDict ?d2) ''packages'' nightly_packages =
      Inr (TDict (AList.update ''tool''
        (TDict (AList.update ''poetry'' (TDict (AList.update ''packages'' nightly_packages ?p2)) ?t2)) ?d2))"
    by (rule set_poetry_item_eq [OF d2 t2])
  from 1 2 3 show ?thesis
    by (simp add: update_manifest_def)
qed

lemma map_fst_update:
  "map_of al k \<noteq> None \<Longrightarrow> map fst (AList.update k v al) = map fst al"
  by (induction al) auto

lemma pyproject_try_ok:
  assumes "files w p = Some s" and "toml_loads env s = Some kvs"
    and "update_manifest (TDict kvs) (version_str env ver) = Inr d'"
    and "writable env p"
    and "decode s \<noteq> None"
  shows "pyproject_try env p ver w = (Inr (), w\<lparr>files := (files w)(p \<mapsto> toml_dumps env d')\<rparr>)"
  using assms by (auto simp: pyproject_try_def toml_load_def split: option.splits)

lemma write_version_to_pyproject_ok:
  assumes "files w (joinpath (project_root env) path) = Some s" and "toml_loads env s = Some kvs"
    and "update_manifest (TDict kvs) (version_str env ver) = Inr d'"
    and "writable env (joinpath (project_root env) path)"
    and "decode s \<noteq> None"
  shows "write_version_to_pyproject env path ver w =
    (Inr (), w\<lparr>files := (files w)(joinpath (project_root env) path \<mapsto> toml_dumps env d')\<rparr>)"
  by (simp add: write_version_to_pyproject_def pyproject_try_ok [OF assms])

text \<open>
  Claim C4. For a manifest whose parsed data holds the tables \<^verbatim>\<open>tool\<close> and
  \<^verbatim>\<open>tool.poetry\<close>, whatever other keys it has, \<^verbatim>\<open>write_version_to_pyproject\<close> succeeds
  and the data it writes back has \<^verbatim>\<open>tool.poetry.name = "rasa-nightly"\<close>,
  \<^verbatim>\<open>tool.poetry.version = str(version)\<close> and
  \<^verbatim>\<open>tool.poetry.packages = [{"include": "rasa"}]\<close>; every top-level key other than
  \<^verbatim>\<open>tool\<close> keeps its value, and the top-level keys keep their order.
\<close>

theorem write_version_to_pyproject_data:
  assumes "files w (joinpath (project_root env) path) = Some s"
    and "toml_loads env s = Some kvs"
    and "map_of kvs ''tool'' = Some (TDict tool)"
    and "map_of tool ''poetry'' = Some (TDict poetry)"
    and "writable env (joinpath (project_root env) path)"
    and "decode s \<noteq> None"
  shows "\<exists>kvs' tool' poetry'.
     fst (write_version_to_pyproject env path ver w) = Inr () \<and>
     files (snd (write_version_to_pyproject env path ver w)) (joinpath (project_root env) path) =
       Some (toml_dumps env (TDict kvs')) \<and>
     map_of kvs' ''tool'' = Some (TDict tool') \<and>
     map_of tool' ''poetry'' = Some (TDict poetry') \<and>
     map_of poetry' ''name'' = Some (TStr ''rasa-nightly'') \<and>
     map_of poetry' ''version'' = Some (TStr (version_str env ver)) \<and>
     map_of poetry' ''packages'' = Some (TList [TDict [(''include'', TStr ''rasa'')]]) \<and>
     (\<forall>k. k \<noteq> ''tool'' \<longrightarrow> map_of kvs' k = map_of kvs k) \<and>
     map fst kvs' = map fst kvs"
proof -
  let ?p = "AList.update ''packages'' nightly_packages
              (AList.update ''version'' (TStr (version_str env ver))
                 (AList.update ''name'' (TStr ''rasa-nightly'') poetry))"
  let ?t = "AList.update ''poetry'' (TDict ?p) tool"
  let ?d = "AList.update ''tool'' (TDict ?t) kvs"
  have u: "update_manifest (TDict kvs) (version_str env ver) = Inr (TDict ?d)"
    by (rule update_manifest_eq [OF assms(3,4)])
  have r: "write_version_to_pyproject env path ver w =
      (Inr (), w\<lparr>files := (files w)(joinpath (project_root env) path \<mapsto> toml_dumps env (TDict ?d))\<rparr>)"
    by (rule write_version_to_pyproject_ok [OF assms(1,2) u assms(5,6)])
  have "fst (write_version_to_pyproject env path ver w) = Inr ()"
    and "files (snd (write_version_to_pyproject env path ver w)) (joinpath (project_root env) path) =
       Some (toml_dumps env (TDict ?d))"
    by (simp_all add: r)
  moreover have "map_of ?d ''tool'' = Some (TDict ?t)" and "map_of ?t ''poetry'' = Some (TDict ?p)"
    by (simp_all add: update_conv')
  moreover have "map_of ?p ''name'' = Some (TStr ''rasa-nightly'')"
    and "map_of ?p ''version'' = Some (TStr (version_str env ver))"
    and "map_of ?p ''packages'' = Some (TList [TDict [(''include'', TStr ''rasa'')]])"
    by (simp_all add: update_conv' nightly_packages_def)
  moreover have "\<forall>k. k \<noteq> ''tool'' \<longrightarrow> map_of ?d k = map_of kvs k"
    by (simp add: update_conv')
  moreover have "map fst ?d = map fst kvs"
    using assms(3) by (simp add: map_fst_update)
  ultimately show ?thesis
    by blast
qed

lemma sample_paths:
  "joinpath (project_root (sample_env g)) PYPROJECT_FILE_PATH = ''/srv/rasa/pyproject.toml''"
  "joinpath (project_root (sample_env g)) VERSION_FILE_PATH = ''/srv/rasa/rasa/version.py''"
  by (simp_all add: joinpath_def sample_env_def PYPROJECT_FILE_PATH_def VERSION_FILE_PATH_def)

lemma sample_decodes:
  "decode sample_manifest \<noteq> None" "decode sample_rewritten \<noteq> None"
  by code_simp+

lemma sample_loads:
  "fragment_loads sample_manifest =
     Some [(''title'', TStr ''Rasa''),
           (''tool'', TDict [(''poetry'',
              TDict [(''name'', TStr ''rasa''), (''version'', TStr ''2.4.0''),
                     (''description'', TStr ''machine learning framework'')])])]"
  by code_simp

lemma sample_dumps:
  "fragment_dumps (TDict [(''title'', TStr ''Rasa''),
           (''tool'', TDict [(''poetry'',
              TDict [(''name'', TStr ''rasa-nightly''), (''version'', TStr ''2.4.1.dev3''),
                     (''description'', TStr ''machine learning framework''),
                     (''packages'', TList [TDict [(''include'', TStr ''rasa'')]])])])]) =
   sample_rewritten"
  by code_simp

lemma sample_reloads:
  "fragment_loads sample_rewritten =
     Some [(''title'', TStr ''Rasa''),
           (''tool'', TDict [(''poetry'',
              TDict [(''name'', TStr ''rasa-nightly''), (''version'', TStr ''2.4.1.dev3''),
                     (''description'', TStr ''machine learning framework''),
                     (''packages'', TList [TDict [(''include'', TStr ''rasa'')]])])])]"
  by code_simp

lemma sample_rewrite:
  "write_version_to_pyproject (sample_env g) PYPROJECT_FILE_PATH ''2.4.1.dev3'' sample_world =
     (Inr (), sample_world\<lparr>files := (files sample_world)(''/srv/rasa/pyproject.toml'' \<mapsto> sample_rewritten)\<rparr>)"
proof -
  have f: "files sample_world (joinpath (project_root (sample_env g)) PYPROJECT_FILE_PATH) = Some sample_manifest"
    by (simp add: sample_paths sample_world_def)
  have l: "toml_loads (sample_env g) sample_manifest = Some [(''title'', TStr ''Rasa''),
           (''tool'', TDict [(''poetry'',
              TDict [(''name'', TStr ''rasa''), (''version'', TStr ''2.4.0''),
                     (''description'', TStr ''machine learning framework'')])])]"
    by (simp add: sample_env_def sample_loads)
  have u: "update_manifest (TDict [(''title'', TStr ''Rasa''),
           (''tool'', TDict [(''poetry'',
              TDict [(''name'', TStr ''rasa''), (''version'', TStr ''2.4.0''),
                     (''description'', TStr ''machine learning framework'')])])])
           (version_str (sample_env g) ''2.4.1.dev3'') =
         Inr (TDict [(''title'', TStr ''Rasa''),
           (''tool'', TDict [(''poetry'',
              TDict [(''name'', TStr ''rasa-nightly''), (''version'', TStr ''2.4.1.dev3''),
                     (''description'', TStr ''machine learning framework''),
                     (''packages'', TList [TDict [(''include'', TStr ''rasa'')]])])])])"
    by (simp add: update_manifest_def set_poetry_item_def nightly_packages_def sample_env_def)
  have w: "writable (sample_env g) (joinpath (project_root (sample_env g)) PYPROJECT_FILE_PATH)"
    by (simp add: sample_env_def)
  have d: "toml_dumps (sample_env g) = fragment_dumps"
    by (simp add: sample_env_def)
  show ?thesis
    using write_version_to_pyproject_ok [OF f l u w sample_decodes(1)]
    by (simp add: sample_paths d sample_dumps)
qed

theorem write_version_to_pyproject_data_witness:
  "files sample_world (joinpath (project_root (sample_env (git_on ''main''))) PYPROJECT_FILE_PATH) =
     Some sample_manifest \<and>
   toml_loads (sample_env (git_on ''main'')) sample_manifest =
     Some [(''title'', TStr ''Rasa''),
           (''tool'', TDict [(''poetry'',
              TDict [(''name'', TStr ''rasa''), (''version'', TStr ''2.4.0''),
                     (''description'', TStr ''machine learning framework'')])])] \<and>
   (\<exists>kvs' tool' poetry'.
     fst (write_version_to_pyproject (sample_env (git_on ''main'')) PYPROJECT_FILE_PATH
            ''2.4.1.dev3'' sample_world) = Inr () \<and>
     files (snd (write_version_to_pyproject (sample_env (git_on ''main'')) PYPROJECT_FILE_PATH
                   ''2.4.1.dev3'' sample_world))
       (joinpath (project_root (sample_env (git_on ''main''))) PYPROJECT_FILE_PATH) =
       Some (toml_dumps (sample_env (git_on ''main'')) (TDict kvs')) \<and>
     map_of kvs' ''tool'' = Some (TDict tool') \<and>
     map_of tool' ''poetry'' = Some (TDict poetry') \<and>
     map_of poetry' ''name'' = Some (TStr ''rasa-nightly'') \<and>
     map_of poetry' ''version'' = Some (TStr (version_str (sample_env (git_on ''main'')) ''2.4.1.dev3'')) \<and>
     map_of poetry' ''packages'' = Some (TList [TDict [(''include'', TStr ''rasa'')]]) \<and>
     (\<forall>k. k \<noteq> ''tool'' \<longrightarrow>
          map_of kvs' k =
          map_of [(''title'', TStr ''Rasa''),
           (''tool'', TDict [(''poetry'',
              TDict [(''name'', TStr ''rasa''), (''version'', TStr ''2.4.0''),
                     (''description'', TStr ''machine learning framework'')])])] k) \<and>
     map fst kvs' =
       map fst [(''title'', TStr ''Rasa''),
           (''tool'', TDict [(''poetry'',
              TDict [(''name'', TStr ''rasa''), (''version'', TStr ''2.4.0''),
                     (''description'', TStr ''machine learning framework'')])])])"
proof -
  let ?env = "sample_env (git_on ''main'')"
  let ?poetry = "[(''name'', TStr ''rasa''), (''version'', TStr ''2.4.0''),
                     (''description'', TStr ''machine learning framework'')]"
  let ?tool = "[(''poetry'', TDict ?poetry)]"
  let ?kvs = "[(''title'', TStr ''Rasa''), (''tool'', TDict ?tool)]"
  have f: "files sample_world (joinpath (project_root ?env) PYPROJECT_FILE_PATH) = Some sample_manifest"
    by (simp add: sample_paths sample_world_def)
  have l: "toml_loads ?env sample_manifest = Some ?kvs"
    by (simp add: sample_env_def sample_loads)
  have t: "map_of ?kvs ''tool'' = Some (TDict ?tool)"
    by simp
  have p: "map_of ?tool ''poetry'' = Some (TDict ?poetry)"
    by simp
  have w: "writable ?env (joinpath (project_root ?env) PYPROJECT_FILE_PATH)"
    by (simp add: sample_env_def)
  show ?thesis
    by (rule conjI [OF f conjI [OF l write_version_to_pyproject_data [OF f l t p w sample_decodes(1)]]])
qed

text \<open>
  Claim C2, as stated, fails: the rewrite parses the manifest and serialises the parsed
  data, so what the parser drops is lost. On the sample manifest the rewrite succeeds,
  and the comment line of the old file, which belongs to none of the three fields, is
  not a line of the new file.
\<close>

theorem manifest_comment_lost:
  "fst (write_version_to_pyproject (sample_env (git_on ''main'')) PYPROJECT_FILE_PATH ''2.4.1.dev3''
          sample_world) = Inr () \<and>
   files sample_world ''/srv/rasa/pyproject.toml'' = Some sample_manifest \<and>
   files (snd (write_version_to_pyproject (sample_env (git_on ''main'')) PYPROJECT_FILE_PATH
                 ''2.4.1.dev3'' sample_world)) ''/srv/rasa/pyproject.toml'' = Some sample_rewritten \<and>
   ''# nightly builds are cut from this manifest'' \<in> set (split_on CHR 0x0A sample_manifest) \<and>
   ''# nightly builds are cut from this manifest'' \<notin> set (split_on CHR 0x0A sample_rewritten) \<and>
   \<not> other_lines_kept sample_manifest sample_rewritten"
proof -
  have 1: "split_on CHR 0x0A sample_manifest =
     [''# nightly builds are cut from this manifest'', ''title = \"Rasa\"'', [],
      ''[tool.poetry]'', ''name = \"rasa\"'', ''version = \"2.4.0\"'',
      ''description = \"machine learning framework\"'', []]"
    by (simp add: sample_manifest_def)
  have 2: "split_on CHR 0x0A sample_rewritten =
     [''title = \"Rasa\"'', [], ''[tool.poetry]'', ''name = \"rasa-nightly\"'',
      ''version = \"2.4.1.dev3\"'', ''description = \"machine learning framework\"'',
      ''[[tool.poetry.packages]]'', ''include = \"rasa\"'', [], []]"
    by (simp add: sample_rewritten_def)
  have 3: "\<not> field_line ''# nightly builds are cut from this manifest''"
    by (simp add: field_line_def trim_def blank_def)
  show ?thesis
    by (simp add: sample_rewrite other_lines_kept_def 1 2 3) (simp add: sample_world_def)
qed

text \<open>
  Claim C2, amended. For a well-formed manifest the rewrite changes nothing in the world
  but the manifest file, whose new text is the serialisation of the parsed data after the
  update; in that data every key other than \<^verbatim>\<open>name\<close>, \<^verbatim>\<open>version\<close> and \<^verbatim>\<open>packages\<close>
  of \<^verbatim>\<open>tool.poetry\<close> keeps its value (at the top level, in \<^verbatim>\<open>tool\<close> and in
  \<^verbatim>\<open>tool.poetry\<close>). Where the library writes UTF-8 and reads back what it wrote,
  loading the rewritten manifest gives exactly this data. The content is preserved as
  parsed data, not byte for byte.
\<close>

theorem write_version_to_pyproject_frame:
  assumes "files w (joinpath (project_root env) path) = Some s"
    and "toml_loads env s = Some kvs"
    and "map_of kvs ''tool'' = Some (TDict tool)"
    and "map_of tool ''poetry'' = Some (TDict poetry)"
    and "writable env (joinpath (project_root env) path)"
    and "decode s \<noteq> None"
  shows "\<exists>kvs' tool' poetry'.
     write_version_to_pyproject env path ver w =
       (Inr (), w\<lparr>files := (files w)(joinpath (project_root env) path \<mapsto> toml_dumps env (TDict kvs'))\<rparr>) \<and>
     update_manifest (TDict kvs) (version_str env ver) = Inr (TDict kvs') \<and>
     map_of kvs' ''tool'' = Some (TDict tool') \<and>
     map_of tool' ''poetry'' = Some (TDict poetry') \<and>
     (\<forall>k. k \<noteq> ''tool'' \<longrightarrow> map_of kvs' k = map_of kvs k) \<and>
     (\<forall>k. k \<noteq> ''poetry'' \<longrightarrow> map_of tool' k = map_of tool k) \<and>
     (\<forall>k. k \<noteq> ''name'' \<and> k \<noteq> ''version'' \<and> k \<noteq> ''packages'' \<longrightarrow>
          map_of poetry' k = map_of poetry k) \<and>
     (decode (toml_dumps env (TDict kvs')) \<noteq> None \<and>
      toml_loads env (toml_dumps env (TDict kvs')) = Some kvs' \<longrightarrow>
        toml_load env (joinpath (project_root env) path)
          (snd (write_version_to_pyproject env path ver w)) = Inr (TDict kvs'))"
proof -
  let ?p = "AList.update ''packages'' nightly_packages
              (AList.update ''version'' (TStr (version_str env ver))
                 (AList.update ''name'' (TStr ''rasa-nightly'') poetry))"
  let ?t = "AList.update ''poetry'' (TDict ?p) tool"
  let ?d = "AList.update ''tool'' (TDict ?t) kvs"
  have u: "update_manifest (TDict kvs) (version_str env ver) = Inr (TDict ?d)"
    by (rule update_manifest_eq [OF assms(3,4)])
  have r: "write_version_to_pyproject env path ver w =
      (Inr (), w\<lparr>files := (files w)(joinpath (project_root env) path \<mapsto> toml_dumps env (TDict ?d))\<rparr>)"
    by (rule write_version_to_pyproject_ok [OF assms(1,2) u assms(5,6)])
  have "map_of ?d ''tool'' = Some (TDict ?t)" and "map_of ?t ''poetry'' = Some (TDict ?p)"
    by (simp_all add: update_conv')
  moreover have "\<forall>k. k \<noteq> ''tool'' \<longrightarrow> map_of ?d k = map_of kvs k"
    and "\<forall>k. k \<noteq> ''poetry'' \<longrightarrow> map_of ?t k = map_of tool k"
    and "\<forall>k. k \<noteq> ''name'' \<and> k \<noteq> ''version'' \<and> k \<noteq> ''packages'' \<longrightarrow> map_of ?p k = map_of poetry k"
    by (simp_all add: update_conv')
  moreover have "decode (toml_dumps env (TDict ?d)) \<noteq> None \<and>
      toml_loads env (toml_dumps env (TDict ?d)) = Some ?d \<longrightarrow>
        toml_load env (joinpath (project_root env) path)
          (snd (write_version_to_pyproject env path ver w)) = Inr (TDict ?d)"
    by (auto simp: r toml_load_def split: option.splits)
  ultimately show ?thesis
    using u r by blast
qed

theorem write_version_to_pyproject_frame_witness:
  "files sample_world (joinpath (project_root (sample_env (git_on ''main''))) PYPROJECT_FILE_PATH) =
     Some sample_manifest \<and>
   fragment_loads sample_manifest =
     Some [(''title'', TStr ''Rasa''),
           (''tool'', TDict [(''poetry'',
              TDict [(''name'', TStr ''rasa''), (''version'', TStr ''2.4.0''),
                     (''description'', TStr ''machine learning framework'')])])] \<and>
   write_version_to_pyproject (sample_env (git_on ''main'')) PYPROJECT_FILE_PATH ''2.4.1.dev3''
       sample_world =
     (Inr (), sample_world\<lparr>files := (files sample_world)(''/srv/rasa/pyproject.toml'' \<mapsto> sample_rewritten)\<rparr>) \<and>
   toml_load (sample_env (git_on ''main'')) ''/srv/rasa/pyproject.toml''
       (snd (write_version_to_pyproject (sample_env (git_on ''main'')) PYPROJECT_FILE_PATH
               ''2.4.1.dev3'' sample_world)) =
     Inr (TDict [(''title'', TStr ''Rasa''),
           (''tool'', TDict [(''poetry'',
              TDict [(''name'', TStr ''rasa-nightly''), (''version'', TStr ''2.4.1.dev3''),
                     (''description'', TStr ''machine learning framework''),
                     (''packages'', TList [TDict [(''include'', TStr ''rasa'')]])])])])"
proof -
  let ?env = "sample_env (git_on ''main'')"
  let ?poetry = "[(''name'', TStr ''rasa''), (''version'', TStr ''2.4.0''),
                     (''description'', TStr ''machine learning framework'')]"
  let ?tool = "[(''poetry'', TDict ?poetry)]"
  let ?kvs = "[(''title'', TStr ''Rasa''), (''tool'', TDict ?tool)]"
  define new where "new = [(''title'', TStr ''Rasa''),
           (''tool'', TDict [(''poetry'',
              TDict [(''name'', TStr ''rasa-nightly''), (''version'', TStr ''2.4.1.dev3''),
                     (''description'', TStr ''machine learning framework''),
                     (''packages'', TList [TDict [(''include'', TStr ''rasa'')]])])])]"
  have f: "files sample_world (joinpath (project_root ?env) PYPROJECT_FILE_PATH) = Some sample_manifest"
    by (simp add: sample_paths sample_world_def)
  have l: "toml_loads ?env sample_manifest = Some ?kvs"
    by (simp add: sample_env_def sample_loads)
  have t: "map_of ?kvs ''tool'' = Some (TDict ?tool)"
    by simp
  have p: "map_of ?tool ''poetry'' = Some (TDict ?poetry)"
    by simp
  have w: "writable ?env (joinpath (project_root ?env) PYPROJECT_FILE_PATH)"
    by (simp add: sample_env_def)
  have u: "update_manifest (TDict ?kvs) (version_str ?env ''2.4.1.dev3'') = Inr (TDict new)"
    by (simp add: new_def update_manifest_def set_poetry_item_def nightly_packages_def sample_env_def)
  have d: "toml_dumps ?env (TDict new) = sample_rewritten"
    by (simp add: new_def sample_env_def sample_dumps)
  have rt: "toml_loads ?env sample_rewritten = Some new"
    by (simp add: new_def sample_env_def sample_reloads)
  have q: "joinpath (project_root ?env) PYPROJECT_FILE_PATH = ''/srv/rasa/pyproject.toml''"
    by (rule sample_paths)
  from write_version_to_pyproject_frame [OF f l t p w sample_decodes(1), of "''2.4.1.dev3''"]
  obtain kvs' where
    r: "write_version_to_pyproject ?env PYPROJECT_FILE_PATH ''2.4.1.dev3'' sample_world =
       (Inr (), sample_world\<lparr>files := (files sample_world)
          (joinpath (project_root ?env) PYPROJECT_FILE_PATH \<mapsto> toml_dumps ?env (TDict kvs'))\<rparr>)"
    and k: "update_manifest (TDict ?kvs) (version_str ?env ''2.4.1.dev3'') = Inr (TDict kvs')"
    and b: "decode (toml_dumps ?env (TDict kvs')) \<noteq> None \<and>
        toml_loads ?env (toml_dumps ?env (TDict kvs')) = Some kvs' \<longrightarrow>
        toml_load ?env (joinpath (project_root ?env) PYPROJECT_FILE_PATH)
          (snd (write_version_to_pyproject ?env PYPROJECT_FILE_PATH ''2.4.1.dev3'' sample_world)) =
        Inr (TDict kvs')"
    by (elim exE conjE)
  from k u have kvs': "kvs' = new"
    by simp
  from r have r': "write_version_to_pyproject ?env PYPROJECT_FILE_PATH ''2.4.1.dev3'' sample_world =
     (Inr (), sample_world\<lparr>files := (files sample_world)(''/srv/rasa/pyproject.toml'' \<mapsto> sample_rewritten)\<rparr>)"
    unfolding kvs' d q .
  from b have b': "toml_load ?env ''/srv/rasa/pyproject.toml''
          (snd (write_version_to_pyproject ?env PYPROJECT_FILE_PATH ''2.4.1.dev3'' sample_world)) =
        Inr (TDict new)"
    unfolding kvs' d q using rt sample_decodes(2) by blast
  show ?thesis
    unfolding new_def [symmetric]
    by (rule conjI [OF f conjI [OF sample_loads [folded new_def] conjI [OF r' b']]])
qed

section \<open>Properties of the version file writer\<close>

lemma write_version_file_ok:
  "writable env (joinpath (project_root env) path) \<Longrightarrow>
   write_version_file env path ver w =
     (Inr (),
      w\<lparr>stdout := stdout w @ [''this is the version file path '' @ joinpath (project_root env) path],
        files := (files w)(joinpath (project_root env) path \<mapsto>
                             version_file_text (version_str env ver))\<rparr>)"
  by (simp add: write_version_file_def py_print_def Let_def)

text \<open>
  Claim C7. Where the version file can be opened for writing, \<^verbatim>\<open>write_version_file\<close>
  returns normally and leaves a file whose whole content is the two header comment lines
  followed by the line \<^verbatim>\<open>__version__ = "<version>"\<close>, whatever the file held before; no
  other file changes.
\<close>

theorem write_version_file_content:
  \<open>writable env (joinpath (project_root env) path) \<Longrightarrow>
   fst (write_version_file env path ver w) = Inr () \<and>
   files (snd (write_version_file env path ver w)) (joinpath (project_root env) path) =
     Some (''# this file will automatically be changed,\<newline>'' @
           ''# do not add anything but the version number here!\<newline>'' @
           ''__version__ = "'' @ version_str env ver @ ''"\<newline>'') \<and>
   (\<forall>q. q \<noteq> joinpath (project_root env) path \<longrightarrow>
      files (snd (write_version_file env path ver w)) q = files w q)\<close>
  by (simp add: write_version_file_ok version_file_text_def)

theorem write_version_file_content_witness:
  \<open>writable (sample_env (git_on ''main'')) (joinpath (project_root (sample_env (git_on ''main''))) VERSION_FILE_PATH) \<and>
   files sample_world ''/srv/rasa/rasa/version.py'' = Some ''__version__ = "2.4.0"\<newline>'' \<and>
   fst (write_version_file (sample_env (git_on ''main'')) VERSION_FILE_PATH ''2.4.1.dev3'' sample_world) = Inr () \<and>
   files (snd (write_version_file (sample_env (git_on ''main'')) VERSION_FILE_PATH ''2.4.1.dev3'' sample_world))
      ''/srv/rasa/rasa/version.py'' =
     Some (''# this file will automatically be changed,\<newline>'' @
           ''# do not add anything but the version number here!\<newline>'' @
           ''__version__ = "2.4.1.dev3"\<newline>'') \<and>
   files (snd (write_version_file (sample_env (git_on ''main'')) VERSION_FILE_PATH ''2.4.1.dev3'' sample_world))
      ''/srv/rasa/pyproject.toml'' = Some sample_manifest\<close>
proof -
  let ?env = "sample_env (git_on ''main'')"
  have h: "writable ?env (joinpath (project_root ?env) VERSION_FILE_PATH)"
    by (simp add: sample_env_def)
  have v: "version_str ?env ''2.4.1.dev3'' = ''2.4.1.dev3''"
    by (simp add: sample_env_def)
  have w: "files sample_world ''/srv/rasa/pyproject.toml'' = Some sample_manifest"
     \<open>files sample_world ''/srv/rasa/rasa/version.py'' = Some ''__version__ = "2.4.0"\<newline>''\<close>
    by (simp_all add: sample_world_def)
  show ?thesis
    using write_version_file_content [OF h, of "''2.4.1.dev3''" sample_world] h w
    by (simp add: sample_paths v)
qed

section \<open>Failures of the manifest rewrite\<close>

lemma pyproject_try_KeyError_tool:
  assumes "files w p = Some s" and "toml_loads env s = Some kvs" and "decode s \<noteq> None"
    and "map_of kvs ''tool'' = None"
  shows "pyproject_try env p ver w = (Inl (KeyError ''tool''), w)"
  using assms
  by (auto simp: pyproject_try_def toml_load_def update_manifest_def set_poetry_item_def
      split: option.splits)

lemma pyproject_try_KeyError_poetry:
  assumes "files w p = Some s" and "toml_loads env s = Some kvs" and "decode s \<noteq> None"
    and "map_of kvs ''tool'' = Some (TDict tool)" and "map_of tool ''poetry'' = None"
  shows "pyproject_try env p ver w = (Inl (KeyError ''poetry''), w)"
  using assms
  by (auto simp: pyproject_try_def toml_load_def update_manifest_def set_poetry_item_def
      split: option.splits)

text \<open>
  Claim C10. When the manifest exists and parses (as UTF-8 and as TOML), but the parsed data has no key
  \<^verbatim>\<open>tool\<close>, or its \<^verbatim>\<open>tool\<close> table has no key \<^verbatim>\<open>poetry\<close>, the rewrite ends with an
  uncaught \<^verbatim>\<open>KeyError\<close>: none of the handlers applies, nothing is printed, nothing is
  written, and the outcome is not \<^verbatim>\<open>SystemExit(1)\<close>.
\<close>

theorem missing_tables_raise_KeyError:
  assumes "files w (joinpath (project_root env) path) = Some s"
    and "toml_loads env s = Some kvs"
    and "decode s \<noteq> None"
  shows "(map_of kvs ''tool'' = None \<longrightarrow>
            write_version_to_pyproject env path ver w = (Inl (KeyError ''tool''), w)) \<and>
         (\<forall>tool. map_of kvs ''tool'' = Some (TDict tool) \<and> map_of tool ''poetry'' = None \<longrightarrow>
            write_version_to_pyproject env path ver w = (Inl (KeyError ''poetry''), w))"
  by (simp add: write_version_to_pyproject_def pyproject_try_KeyError_tool [OF assms]
      pyproject_try_KeyError_poetry [OF assms])

theorem missing_tables_raise_KeyError_witness:
  \<open>fragment_loads ''title = "Rasa"\<newline>'' = Some [(''title'', TStr ''Rasa'')] \<and>
   write_version_to_pyproject (sample_env (git_on ''main'')) PYPROJECT_FILE_PATH ''2.4.1.dev3''
       (with_manifest (Some ''title = "Rasa"\<newline>'')) =
     (Inl (KeyError ''tool''), with_manifest (Some ''title = "Rasa"\<newline>'')) \<and>
   fragment_loads ''[tool.black]\<newline>target = "py38"\<newline>'' =
     Some [(''tool'', TDict [(''black'', TDict [(''target'', TStr ''py38'')])])] \<and>
   write_version_to_pyproject (sample_env (git_on ''main'')) PYPROJECT_FILE_PATH ''2.4.1.dev3''
       (with_manifest (Some ''[tool.black]\<newline>target = "py38"\<newline>'')) =
     (Inl (KeyError ''poetry''), with_manifest (Some ''[tool.black]\<newline>target = "py38"\<newline>''))\<close>
proof -
  let ?env = "sample_env (git_on ''main'')"
  have l1: \<open>fragment_loads ''title = "Rasa"\<newline>'' = Some [(''title'', TStr ''Rasa'')]\<close>
    by code_simp
  have l2: \<open>fragment_loads ''[tool.black]\<newline>target = "py38"\<newline>'' =
     Some [(''tool'', TDict [(''black'', TDict [(''target'', TStr ''py38'')])])]\<close>
    by code_simp
  have f: "files (with_manifest (Some m)) (joinpath (project_root ?env) PYPROJECT_FILE_PATH) = Some m" for m
    by (simp add: with_manifest_def sample_paths)
  have e: "toml_loads ?env = fragment_loads"
    by (simp add: sample_env_def)
  have d1: \<open>decode ''title = "Rasa"\<newline>'' \<noteq> None\<close>
    and d2: \<open>decode ''[tool.black]\<newline>target = "py38"\<newline>'' \<noteq> None\<close>
    by code_simp+
  have 1: \<open>write_version_to_pyproject ?env PYPROJECT_FILE_PATH ''2.4.1.dev3''
       (with_manifest (Some ''title = "Rasa"\<newline>'')) =
     (Inl (KeyError ''tool''), with_manifest (Some ''title = "Rasa"\<newline>''))\<close>
    using missing_tables_raise_KeyError [OF f l1 [folded e] d1, of "''2.4.1.dev3''"]
    by simp
  have 2: \<open>write_version_to_pyproject ?env PYPROJECT_FILE_PATH ''2.4.1.dev3''
       (with_manifest (Some ''[tool.black]\<newline>target = "py38"\<newline>'')) =
     (Inl (KeyError ''poetry''), with_manifest (Some ''[tool.black]\<newline>target = "py38"\<newline>''))\<close>
    using missing_tables_raise_KeyError [OF f l2 [folded e] d2, of "''2.4.1.dev3''"]
    by simp
  show ?thesis
    by (rule conjI [OF l1 conjI [OF 1 conjI [OF l2 2]]])
qed




















section \<open>Properties of the orchestrator\<close>

text \<open>
  Claim C5. For a string the version class rejects, \<^verbatim>\<open>parse_next_version\<close> fails with
  \<^verbatim>\<open>InvalidVersion\<close>, and \<open>main\<close> ends with that exception after printing its first
  line only: no file is written and no subprocess is started.
\<close>

theorem invalid_version_writes_nothing:
  assumes "arg_next_version a = Some s" and "parse_version env s = None"
  shows "parse_next_version env s = Inl InvalidVersion \<and>
     main env a w = (Inl InvalidVersion, w\<lparr>stdout := stdout w @ [banner]\<rparr>) \<and>
     files (snd (main env a w)) = files w \<and>
     procs (snd (main env a w)) = procs w"
  using assms
  by (simp add: main_def next_version_def parse_next_version_def py_print_def)

theorem invalid_version_writes_nothing_witness:
  "canonical_version ''not-a-version'' = None \<and>
   canonical_version [] = None \<and>
   parse_next_version (sample_env (git_on ''main'')) ''not-a-version'' = Inl InvalidVersion \<and>
   parse_next_version (sample_env (git_on ''main'')) [] = Inl InvalidVersion \<and>
   main (sample_env (git_on ''main'')) \<lparr>arg_next_version = Some ''not-a-version''\<rparr> sample_world =
     (Inl InvalidVersion, sample_world\<lparr>stdout := [banner]\<rparr>) \<and>
   main (sample_env (git_on ''main'')) \<lparr>arg_next_version = Some []\<rparr> sample_world =
     (Inl InvalidVersion, sample_world\<lparr>stdout := [banner]\<rparr>) \<and>
   files (snd (main (sample_env (git_on ''main'')) \<lparr>arg_next_version = Some ''not-a-version''\<rparr>
                 sample_world)) = files sample_world"
proof -
  let ?env = "sample_env (git_on ''main'')"
  have c: "canonical_version ''not-a-version'' = None" "canonical_version [] = None"
    by (simp_all add: canonical_version_def canonical_number_def)
  have p: "parse_version ?env ''not-a-version'' = None" "parse_version ?env [] = None"
    by (simp_all add: sample_env_def c)
  have a: "arg_next_version \<lparr>arg_next_version = Some x\<rparr> = Some x" for x :: string
    by simp
  have o: "stdout sample_world = []"
    by (simp add: sample_world_def)
  show ?thesis
    using invalid_version_writes_nothing [OF a p(1), of sample_world]
      invalid_version_writes_nothing [OF a p(2), of sample_world] c
    by (simp add: o)
qed




end
